theory Spec2Isabelle
  imports Main
begin

section \<open>The authorization-code receiver of \<open>msal/oauth2cli/authcode.py\<close>\<close>

text \<open>
  The module starts a local web server, optionally opens a browser, and waits for the
  redirect that carries the authorization code. \<open>None\<close> is \<^term>\<open>None\<close>, exceptions are values
  of the type \<open>exn\<close>, and the mutable server object is a record passed in and returned.

  The request target \<open>self.path\<close> is a \<^typ>\<open>string\<close> with one character for each byte of
  the request line, which is how \<open>http.server\<close> decodes it (ISO-8859-1). Every other
  Python string (a decoded name or value, the expected state, a response body, a URI)
  is represented by its UTF-8 encoding, so that a character beyond U+00FF, such as the
  replacement character U+FFFD, is the three bytes \<open>EF BF BD\<close>. On ASCII text the two
  readings coincide.
\<close>

subsection \<open>Exceptions\<close>

datatype exn =
    ValueError            \<comment> \<open>a state mismatch, a target \<open>urlparse\<close> rejects, a closed socket\<close>
  | IOError               \<comment> \<open>Python 2: the closed socket after a timeout\<close>
  | IndexError            \<comment> \<open>\<open>[...][0]\<close> on an empty list\<close>
  | TypeError             \<comment> \<open>a browser controller asked to open \<open>None\<close>\<close>
  | OverflowError         \<comment> \<open>a port outside 0..65535\<close>
  | WebbrowserError       \<comment> \<open>\<open>webbrowser.Error\<close>\<close>
  | OSError               \<comment> \<open>the bind of the listening socket failed\<close>
  | KeyboardInterrupt     \<comment> \<open>an exception that is not an \<open>Exception\<close>\<close>

subsection \<open>Characters and splitting\<close>

definition hex_digit :: "char \<Rightarrow> nat option" where
  "hex_digit c =
     (let n = (of_char c :: nat)
      in if 48 \<le> n \<and> n \<le> 57 then Some (n - 48)
         else if 97 \<le> n \<and> n \<le> 102 then Some (n - 87)
         else if 65 \<le> n \<and> n \<le> 70 then Some (n - 55)
         else None)"

definition is_hex :: "char \<Rightarrow> bool" where
  "is_hex c = (hex_digit c \<noteq> None)"

definition is_digit :: "char \<Rightarrow> bool" where
  "is_digit c = (let n = (of_char c :: nat) in 48 \<le> n \<and> n \<le> 57)"

definition is_alpha :: "char \<Rightarrow> bool" where
  "is_alpha c = (let n = (of_char c :: nat) in (97 \<le> n \<and> n \<le> 122) \<or> (65 \<le> n \<and> n \<le> 90))"

text \<open>\<open>s.split(sep)\<close> for a separator of one character.\<close>

fun split_on :: "char \<Rightarrow> string \<Rightarrow> string list" where
  "split_on sep [] = [[]]"
| "split_on sep (c # cs) =
     (if c = sep then [] # split_on sep cs
      else (case split_on sep cs of
              [] \<Rightarrow> [[c]]
            | w # ws \<Rightarrow> (c # w) # ws))"

subsection \<open>The standard library's \<open>urlparse\<close>: the query of a target, or \<open>ValueError\<close>\<close>

text \<open>
  \<open>do_GET\<close> reads \<open>urlparse(self.path).query\<close>. The definitions below follow
  \<open>urllib.parse.urlsplit\<close> of Python 3.11 on the way to the query:
  leading control characters and spaces are stripped, tabs and line ends removed, a
  scheme split off; after \<open>//\<close> comes the network location, up to the first of \<open>/?#\<close>,
  and a location with one square bracket but not the other, or with a bracketed host
  that is neither a valid IPv6 address nor an IPvFuture literal, raises \<open>ValueError\<close>;
  the fragment is cut at the first \<open>#\<close>, and the query is what follows the first \<open>?\<close>.
  (The last check of \<open>urlsplit\<close>, on locations whose compatibility normal form contains
  a delimiter, never fires on ISO-8859-1 text.)
\<close>

text \<open>\<open>ipaddress.IPv4Address\<close> accepts four decimal octets without leading zeros.\<close>

definition octet_ok :: "string \<Rightarrow> bool" where
  "octet_ok octet =
     (octet \<noteq> [] \<and> list_all is_digit octet \<and> length octet \<le> 3
      \<and> (if hd octet = CHR ''0'' then octet = ''0'' else True)
      \<and> foldl (\<lambda>a c. 10 * a + (of_char c - 48)) (0::nat) octet \<le> 255)"

definition ipv4_ok :: "string \<Rightarrow> bool" where
  "ipv4_ok s =
     (s \<noteq> [] \<and> CHR ''/'' \<notin> set s
      \<and> length (split_on CHR ''.'' s) = 4 \<and> list_all octet_ok (split_on CHR ''.'' s))"

text \<open>
  \<open>ipaddress.IPv6Address\<close>: an optional scope after \<open>%\<close>; at least three parts between
  colons, at most nine; an IPv4 suffix counts for two parts; at most one empty part
  inside (the \<open>::\<close>), which may also cover an empty first or last part; every other
  part is one to four hexadecimal digits.
\<close>

definition hextet_ok :: "string \<Rightarrow> bool" where
  "hextet_ok h = (h \<noteq> [] \<and> length h \<le> 4 \<and> list_all is_hex h)"

definition ipv6_parts_ok :: "string list \<Rightarrow> bool" where
  "ipv6_parts_ok parts =
     (let n = length parts
      in if 9 < n then False
         else
           (case filter (\<lambda>i. parts ! i = []) [1..<n - 1] of
              [] \<Rightarrow> n = 8 \<and> list_all hextet_ok parts
            | [skip_index] \<Rightarrow>
                (let parts_hi = (if hd parts = [] then skip_index - 1 else skip_index);
                     parts_lo = (if last parts = [] then n - skip_index - 2
                                 else n - skip_index - 1)
                 in (if hd parts = [] then parts_hi = 0 else True)
                    \<and> (if last parts = [] then parts_lo = 0 else True)
                    \<and> parts_hi + parts_lo < 8
                    \<and> list_all hextet_ok (take parts_hi parts)
                    \<and> list_all hextet_ok (drop (n - parts_lo) parts))
            | _ \<Rightarrow> False))"

definition ipv6_ok :: "string \<Rightarrow> bool" where
  "ipv6_ok s =
     (let addr = takeWhile (\<lambda>c. c \<noteq> CHR ''%'') s;
          scope_id = drop 1 (dropWhile (\<lambda>c. c \<noteq> CHR ''%'') s);
          parts = split_on CHR '':'' addr
      in CHR ''/'' \<notin> set s
         \<and> (if CHR ''%'' \<in> set s then scope_id \<noteq> [] \<and> CHR ''%'' \<notin> set scope_id
              else True)
         \<and> addr \<noteq> []
         \<and> 3 \<le> length parts
         \<and> (if CHR ''.'' \<in> set (last parts)
             then ipv4_ok (last parts) \<and> ipv6_parts_ok (butlast parts @ [''0'', ''0''])
             else ipv6_parts_ok parts))"

text \<open>
  \<open>_check_bracketed_host\<close>: an IPvFuture literal is \<open>v\<close>, hexadecimal digits, a dot and
  something more; anything else must be an IPv6 address, and not an IPv4 address.
\<close>

definition bracketed_host_ok :: "string \<Rightarrow> bool" where
  "bracketed_host_ok hostname =
     (if take 1 hostname = ''v'' then
        (let hexpart = takeWhile (\<lambda>c. c \<noteq> CHR ''.'') (drop 1 hostname);
             more = drop 1 (dropWhile (\<lambda>c. c \<noteq> CHR ''.'') (drop 1 hostname))
         in hexpart \<noteq> [] \<and> list_all is_hex hexpart
            \<and> CHR ''.'' \<in> set (drop 1 hostname)
            \<and> more \<noteq> [] \<and> CHR 0x0A \<notin> set more)
      else if ipv4_ok hostname then False
      else ipv6_ok hostname)"

definition scheme_char :: "char \<Rightarrow> bool" where
  "scheme_char c = (is_alpha c \<or> is_digit c \<or> c \<in> set ''+-.'')"

definition strip_url :: "string \<Rightarrow> string" where
  "strip_url url =
     filter (\<lambda>c. c \<noteq> CHR 0x09 \<and> c \<noteq> CHR 0x0D \<and> c \<noteq> CHR 0x0A)
       (dropWhile (\<lambda>c. (of_char c :: nat) \<le> 32) url)"

definition drop_scheme :: "string \<Rightarrow> string" where
  "drop_scheme url =
     (let prefix = takeWhile (\<lambda>c. c \<noteq> CHR '':'') url
      in if CHR '':'' \<in> set url \<and> prefix \<noteq> [] \<and> is_alpha (hd url)
            \<and> list_all scheme_char prefix
         then drop (Suc (length prefix)) url
         else url)"

definition is_delim :: "char \<Rightarrow> bool" where
  "is_delim c = (c = CHR ''/'' \<or> c = CHR ''?'' \<or> c = CHR ''#'')"

definition urlparse_query :: "string \<Rightarrow> exn + string" where
  "urlparse_query path =
     (let url = drop_scheme (strip_url path);
          netloc = (if take 2 url = ''//''
                    then takeWhile (\<lambda>c. \<not> is_delim c) (drop 2 url) else []);
          rest = (if take 2 url = ''//''
                  then dropWhile (\<lambda>c. \<not> is_delim c) (drop 2 url) else url);
          has_open = (CHR ''['' \<in> set netloc);
          has_close = (CHR '']'' \<in> set netloc);
          bracketed_host = takeWhile (\<lambda>c. c \<noteq> CHR '']'')
                             (drop 1 (dropWhile (\<lambda>c. c \<noteq> CHR ''['') netloc))
      in if has_open \<noteq> has_close then Inl ValueError
         else if has_open \<and> has_close \<and> \<not> bracketed_host_ok bracketed_host
         then Inl ValueError
         else Inr (drop 1 (dropWhile (\<lambda>c. c \<noteq> CHR ''?'')
                            (takeWhile (\<lambda>c. c \<noteq> CHR ''#'') rest))))"

subsection \<open>The standard library's \<open>parse_qs\<close>\<close>

text \<open>
  \<open>unquote_to_bytes\<close>: \<open>%XX\<close> becomes the byte \<open>XX\<close>; a \<open>%\<close> that is not followed by two
  hexadecimal digits stays.
\<close>

fun unquote_to_bytes :: "string \<Rightarrow> string" where
  "unquote_to_bytes [] = []"
| "unquote_to_bytes (c # cs) =
     (if c = CHR ''%'' then
        (case cs of
           a # b # rest \<Rightarrow>
             (case (hex_digit a, hex_digit b) of
                (Some h, Some l) \<Rightarrow> char_of (16 * h + l) # unquote_to_bytes rest
              | _ \<Rightarrow> c # unquote_to_bytes cs)
         | _ \<Rightarrow> c # unquote_to_bytes cs)
      else c # unquote_to_bytes cs)"

text \<open>
  \<open>bytes.decode('utf-8', 'replace')\<close>, written back in UTF-8: a well-formed sequence is
  kept, and every maximal ill-formed part is replaced by U+FFFD.
\<close>

definition continuation :: "char \<Rightarrow> bool" where
  "continuation c = (let n = (of_char c :: nat) in 128 \<le> n \<and> n \<le> 191)"

definition second_ok :: "char \<Rightarrow> char \<Rightarrow> bool" where
  "second_ok lead c =
     (let l = (of_char lead :: nat); n = (of_char c :: nat)
      in if l = 224 then 160 \<le> n \<and> n \<le> 191
         else if l = 237 then 128 \<le> n \<and> n \<le> 159
         else if l = 240 then 144 \<le> n \<and> n \<le> 191
         else if l = 244 then 128 \<le> n \<and> n \<le> 143
         else 128 \<le> n \<and> n \<le> 191)"

definition replacement :: string where
  "replacement = [CHR 0xEF, CHR 0xBF, CHR 0xBD]"

fun utf8_replace :: "string \<Rightarrow> string" where
  "utf8_replace [] = []"
| "utf8_replace (b # bs) =
     (if (of_char b :: nat) < 128 then b # utf8_replace bs
      else if 194 \<le> (of_char b :: nat) \<and> (of_char b :: nat) \<le> 223 then
        (case bs of
           [] \<Rightarrow> replacement
         | c1 # r1 \<Rightarrow>
             if continuation c1 then b # c1 # utf8_replace r1
             else replacement @ utf8_replace bs)
      else if 224 \<le> (of_char b :: nat) \<and> (of_char b :: nat) \<le> 239 then
        (case bs of
           [] \<Rightarrow> replacement
         | c1 # r1 \<Rightarrow>
             if \<not> second_ok b c1 then replacement @ utf8_replace bs
             else
               (case r1 of
                  [] \<Rightarrow> replacement
                | c2 # r2 \<Rightarrow>
                    if continuation c2 then b # c1 # c2 # utf8_replace r2
                    else replacement @ utf8_replace r1))
      else if 240 \<le> (of_char b :: nat) \<and> (of_char b :: nat) \<le> 244 then
        (case bs of
           [] \<Rightarrow> replacement
         | c1 # r1 \<Rightarrow>
             if \<not> second_ok b c1 then replacement @ utf8_replace bs
             else
               (case r1 of
                  [] \<Rightarrow> replacement
                | c2 # r2 \<Rightarrow>
                    if \<not> continuation c2 then replacement @ utf8_replace r1
                    else
                      (case r2 of
                         [] \<Rightarrow> replacement
                       | c3 # r3 \<Rightarrow>
                           if continuation c3 then b # c1 # c2 # c3 # utf8_replace r3
                           else replacement @ utf8_replace r2)))
      else replacement @ utf8_replace bs)"

text \<open>A character of the target beyond ASCII, U+0080 to U+00FF, in UTF-8.\<close>

definition latin1_to_utf8 :: "char \<Rightarrow> string" where
  "latin1_to_utf8 c =
     (let n = (of_char c :: nat)
      in if n < 192 then [CHR 0xC2, c] else [CHR 0xC3, char_of (n - 64)])"

text \<open>
  \<open>unquote\<close> splits its argument into runs of ASCII and runs of other characters. An
  ASCII run is unquoted to bytes and the bytes are decoded; the other runs are kept.
\<close>

fun runs :: "string \<Rightarrow> (bool \<times> string) list" where
  "runs [] = []"
| "runs (c # cs) =
     (case runs cs of
        [] \<Rightarrow> [((of_char c :: nat) < 128, [c])]
      | (ascii, run) # more \<Rightarrow>
          if ascii = ((of_char c :: nat) < 128) then (ascii, c # run) # more
          else ((of_char c :: nat) < 128, [c]) # (ascii, run) # more)"

definition unquote_run :: "bool \<times> string \<Rightarrow> string" where
  "unquote_run r =
     (if fst r then utf8_replace (unquote_to_bytes (snd r))
      else concat (map latin1_to_utf8 (snd r)))"

definition unquote :: "string \<Rightarrow> string" where
  "unquote s = concat (map unquote_run (runs s))"

definition plus_to_space :: "string \<Rightarrow> string" where
  "plus_to_space s = map (\<lambda>c. if c = CHR ''+'' then CHR '' '' else c) s"

text \<open>
  \<open>parse_qsl\<close>: the query is split at \<open>&\<close> and each field at its first \<open>=\<close>; a field
  with a blank value (or without \<open>=\<close>) is skipped, \<open>keep_blank_values\<close> being left at its
  default; in names and values \<open>+\<close> becomes a space before they are unquoted.
\<close>

fun parse_qsl_fields :: "string list \<Rightarrow> (string \<times> string) list" where
  "parse_qsl_fields [] = []"
| "parse_qsl_fields (name_value # fields) =
     (if name_value = [] then parse_qsl_fields fields
      else
        (let name = takeWhile (\<lambda>c. c \<noteq> CHR ''='') name_value;
             val = drop 1 (dropWhile (\<lambda>c. c \<noteq> CHR ''='') name_value)
         in if val \<noteq> [] then
              (unquote (plus_to_space name), unquote (plus_to_space val))
                # parse_qsl_fields fields
            else parse_qsl_fields fields))"

definition parse_qsl :: "string \<Rightarrow> (string \<times> string) list" where
  "parse_qsl qs = parse_qsl_fields (split_on CHR ''&'' qs)"

text \<open>\<open>parse_qs\<close>: the dictionary from a name to the list of its values, in order.\<close>

type_synonym qdict = "string \<rightharpoonup> string list"

fun parse_qs_pairs :: "qdict \<Rightarrow> (string \<times> string) list \<Rightarrow> qdict" where
  "parse_qs_pairs parsed_result [] = parsed_result"
| "parse_qs_pairs parsed_result ((name, val) # pairs) =
     parse_qs_pairs
       (case parsed_result name of
          Some vs \<Rightarrow> parsed_result(name \<mapsto> vs @ [val])
        | None \<Rightarrow> parsed_result(name \<mapsto> [val]))
       pairs"

definition parse_qs :: "string \<Rightarrow> qdict" where
  "parse_qs qs = parse_qs_pairs Map.empty (parse_qsl qs)"

subsection \<open>Python truth values and formatting\<close>

text \<open>\<open>if s:\<close> for an optional string: \<open>None\<close> and the empty string are false.\<close>

definition truthy :: "string option \<Rightarrow> bool" where
  "truthy s = (case s of None \<Rightarrow> False | Some v \<Rightarrow> v \<noteq> [])"

text \<open>\<open>str(x)\<close>, as \<open>format\<close> and \<open>%s\<close> apply it to an optional string.\<close>

definition pystr :: "string option \<Rightarrow> string" where
  "pystr s = (case s of None \<Rightarrow> ''None'' | Some v \<Rightarrow> v)"

text \<open>The decimal digits of a port number, as \<open>"{p}".format(p=listen_port)\<close> writes them.\<close>

function str_nat :: "nat \<Rightarrow> string" where
  "str_nat n =
     (if n < 10 then [''0123456789'' ! n]
      else str_nat (n div 10) @ [''0123456789'' ! (n mod 10)])"
  by pat_completeness auto
termination
  by (relation "measure id") auto

declare str_nat.simps [simp del]

definition str_int :: "int \<Rightarrow> string" where
  "str_int i = (if i < 0 then ''-'' @ str_nat (nat (- i)) else str_nat (nat i))"

text \<open>\<open>qs.get(key, [dflt])[0]\<close>: the first value of a key, or the default.\<close>

definition get_first :: "qdict \<Rightarrow> string \<Rightarrow> string option \<Rightarrow> exn + string option" where
  "get_first qs key dflt =
     (case qs key of
        None \<Rightarrow> Inr dflt
      | Some [] \<Rightarrow> Inl IndexError
      | Some (v # _) \<Rightarrow> Inr (Some v))"

subsection \<open>The server object and the request handler\<close>

record response =
  status :: nat
  content_type :: string
  body :: string

text \<open>
  The fields \<open>server_address\<close>, \<open>state\<close>, \<open>auth_code\<close> and \<open>timeout\<close> are those of
  \<open>AuthcodeRedirectServer\<close>. The last three fields record what the object does to the
  outside: whether its listening socket has been closed, how often the port has been
  released (the socket going from open to closed), and the responses written by
  \<open>_send_full_response\<close> so far, each to a client that is there to read it.
\<close>

record server =
  server_address :: "string \<times> int"
  state :: "string option"
  auth_code :: "string option"
  timeout :: nat
  socket_closed :: bool
  port_releases :: nat
  responses :: "response list"

definition send_full_response :: "string \<Rightarrow> bool \<Rightarrow> response" where
  "send_full_response body' is_ok =
     \<lparr>status = (if is_ok then 200 else 400),
      content_type = (if take 1 body' = ''<'' then ''text/html'' else ''text/plain''),
      body = body'\<rparr>"

text \<open>
  \<open>do_GET\<close>, on the request target \<open>path\<close>. When \<open>urlparse\<close> raises, so does the handler,
  before anything is stored or sent. A list found under a key is true in Python when
  it is not empty, hence the patterns \<open>Some (_ # _)\<close>. The state is compared only when
  the expected state is true (\<open>and\<close> evaluates its right operand lazily).
\<close>

definition do_GET :: "server \<Rightarrow> string \<Rightarrow> exn + server \<times> response" where
  "do_GET srv path =
     (case urlparse_query path of
        Inl e \<Rightarrow> Inl e
      | Inr query \<Rightarrow>
     (let qs = parse_qs query in
      case qs ''code'' of
        Some (code # _) \<Rightarrow>
          (case (if truthy (state srv)
                 then (case get_first qs ''state'' None of
                         Inl e \<Rightarrow> Inl e
                       | Inr st \<Rightarrow> Inr (state srv \<noteq> st))
                 else Inr False) of
             Inl e \<Rightarrow> Inl e
           | Inr True \<Rightarrow> Inl ValueError
           | Inr False \<Rightarrow>
               Inr (srv\<lparr>auth_code := Some code\<rparr>,
                    send_full_response
                      ''Authentication complete. You can close this window'' True))
      | _ \<Rightarrow>
          (case (qs ''text'', qs ''link'') of
             (Some (text # _), Some (link # _)) \<Rightarrow>
               (case get_first qs ''exit_hint'' (Some []) of
                  Inl e \<Rightarrow> Inl e
                | Inr exit_hint \<Rightarrow>
                    Inr (srv,
                         send_full_response
                           (''<a href='' @ link @ ''>'' @ text @ ''</a><hr/>''
                              @ pystr exit_hint)
                           True))
           | _ \<Rightarrow>
               Inr (srv,
                    send_full_response
                      ''This web service serves your redirect_uri'' True))))"

text \<open>
  \<open>server_close\<close> closes the listening socket, which releases the port; on a socket
  that is closed already it does nothing.
\<close>

definition server_close :: "server \<Rightarrow> server" where
  "server_close srv =
     (if socket_closed srv then srv
      else srv\<lparr>socket_closed := True, port_releases := Suc (port_releases srv)\<rparr>)"

definition handle_timeout :: "server \<Rightarrow> server" where
  "handle_timeout srv = server_close srv"

text \<open>
  \<open>AuthcodeRedirectServer.__init__\<close>. \<open>HTTPServer.__init__\<close> is called with the empty
  host and \<open>port\<close>: it raises \<open>OverflowError\<close> for a port outside 0..65535 and \<open>OSError\<close>
  for a port that cannot be bound (\<open>unbindable\<close> lists them); otherwise the socket is
  bound on every IPv4 interface and \<open>server_address\<close> becomes what \<open>getsockname()\<close>
  returns: \<open>0.0.0.0\<close> with the port, which for port 0 is one the system picks
  (\<open>ephemeral\<close>).
\<close>

definition AuthcodeRedirectServer_init ::
    "int list \<Rightarrow> int \<Rightarrow> int \<Rightarrow> string option \<Rightarrow> exn + server" where
  "AuthcodeRedirectServer_init unbindable ephemeral port request_state =
     (if port < 0 \<or> 65535 < port then Inl OverflowError
      else if port \<in> set unbindable then Inl OSError
      else
        Inr \<lparr>server_address = (''0.0.0.0'', if port = 0 then ephemeral else port),
             state = request_state,
             auth_code = None,
             timeout = 300,
             socket_closed = False,
             port_releases = 0,
             responses = []\<rparr>)"

subsection \<open>The standard library's \<open>handle_request\<close>\<close>

text \<open>
  What happens next at the listening socket: a GET request arrives, \<open>self.path\<close> being
  its target; a
  client connects and sends nothing (\<open>Stall\<close>); a connection ends without a GET request,
  being closed early, malformed or of another method (\<open>Other\<close>); \<open>timeout\<close> seconds pass
  without any connection; the waiting process is interrupted.
\<close>

datatype event = Request string | Stall | Other | Timeout | Interrupt

text \<open>
  \<open>handle_request\<close> is inherited from \<open>socketserver.BaseServer\<close>. As its documentation
  says, it handles one request; when no connection arrives within \<open>timeout\<close> seconds it
  calls \<open>handle_timeout\<close> and returns; when the handler raises an \<open>Exception\<close> it calls
  \<open>handle_error\<close> (which prints the traceback), shuts the request down and returns
  normally. The timeout bounds the wait for a connection only: the handler then reads
  the request line without a timeout, so on a client that sends nothing the call
  never returns. Registering a closed socket with the selector raises \<open>ValueError\<close>
  (\<open>IOError\<close> under Python 2). \<open>None\<close> is a call that does not return; so is a call with
  no event left.
\<close>

definition process_request :: "server \<Rightarrow> string \<Rightarrow> exn + server" where
  "process_request srv path =
     (case do_GET srv path of
        Inl e \<Rightarrow> (if e = KeyboardInterrupt then Inl e else Inr srv)
      | Inr (srv', resp) \<Rightarrow> Inr (srv'\<lparr>responses := responses srv' @ [resp]\<rparr>))"

definition handle_request ::
    "server \<Rightarrow> event list \<Rightarrow> ((exn + server) \<times> event list) option" where
  "handle_request srv evs =
     (if socket_closed srv then Some (Inl ValueError, evs)
      else case evs of
             [] \<Rightarrow> None
           | Request path # rest \<Rightarrow> Some (process_request srv path, rest)
           | Stall # rest \<Rightarrow> None
           | Other # rest \<Rightarrow> Some (Inr srv, rest)
           | Timeout # rest \<Rightarrow> Some (Inr (handle_timeout srv), rest)
           | Interrupt # rest \<Rightarrow> Some (Inl KeyboardInterrupt, rest))"

subsection \<open>The receive loop\<close>

text \<open>
  The \<open>while not self.auth_code\<close> loop of \<open>get_auth_code\<close>: the result is the exception
  that leaves the loop, if any, the server and the events not consumed. The two
  \<open>except\<close> clauses break on \<open>ValueError\<close> and \<open>IOError\<close>; any other exception leaves the loop.
\<close>

function get_auth_code_loop ::
    "server \<Rightarrow> event list \<Rightarrow> (exn option \<times> server \<times> event list) option" where
  "get_auth_code_loop srv evs =
     (if truthy (auth_code srv) then Some (None, srv, evs)
      else case handle_request srv evs of
             None \<Rightarrow> None
           | Some (Inl e, rest) \<Rightarrow>
               if e = ValueError \<or> e = IOError then Some (None, srv, rest)
               else Some (Some e, srv, rest)
           | Some (Inr srv', rest) \<Rightarrow> get_auth_code_loop srv' rest)"
  by pat_completeness auto
termination
  by (relation "measure (\<lambda>(srv, evs). length evs)")
     (auto simp: handle_request_def split: if_splits list.splits event.splits)

declare get_auth_code_loop.simps [simp del]

text \<open>\<open>get_auth_code\<close>: the loop, then \<open>server_close\<close> in the \<open>finally\<close> clause.\<close>

definition get_auth_code ::
    "server \<Rightarrow> event list \<Rightarrow> ((exn + string option) \<times> server \<times> event list) option" where
  "get_auth_code srv evs =
     (case get_auth_code_loop srv evs of
        None \<Rightarrow> None
      | Some (raised, srv', rest) \<Rightarrow>
          (let closed = server_close srv'
           in Some (case raised of
                      Some e \<Rightarrow> Inl e
                    | None \<Rightarrow> Inr (auth_code closed),
                    closed, rest)))"

text \<open>
  How often the session has answered a request with the completion message, which
  \<open>do_GET\<close> sends exactly when it assigns \<open>auth_code\<close>.
\<close>

definition captures :: "server \<Rightarrow> nat" where
  "captures srv =
     length (filter (\<lambda>r. body r = ''Authentication complete. You can close this window'')
               (responses srv))"

subsection \<open>Opening the browser\<close>

text \<open>
  \<open>webbrowser.get(name)\<close> returns the controller registered under \<open>name\<close> (under \<open>None\<close>:
  the default one) and raises \<open>webbrowser.Error\<close> when there is none. The registry of
  the machine is an association list.
\<close>

type_synonym controller = string
type_synonym registry = "(string option \<times> controller) list"

definition webbrowser_get :: "registry \<Rightarrow> string option \<Rightarrow> exn + controller" where
  "webbrowser_get reg name =
     (case map_of reg name of None \<Rightarrow> Inl WebbrowserError | Some c \<Rightarrow> Inr c)"

text \<open>What the process does to the outside, in order.\<close>

datatype effect =
    LogWarning string
  | LogInfo string
  | BrowserOpen controller string
  | SocketBound "string \<times> int"

text \<open>
  \<open>controller.open(url)\<close>: the standard controllers build a command line from the URL
  and start it. They raise \<open>TypeError\<close> when the URL is \<open>None\<close>, and \<open>ValueError\<close> when it
  contains a null character, which no command line can carry. Whether the browser then
  comes up is not reported to \<open>browse\<close>, which ignores the result.
\<close>

definition controller_open :: "controller \<Rightarrow> string option \<Rightarrow> exn + effect" where
  "controller_open c url =
     (case url of
        None \<Rightarrow> Inl TypeError
      | Some u \<Rightarrow> if CHR 0x00 \<in> set u then Inl ValueError else Inr (BrowserOpen c u))"

text \<open>The \<open>for browser in [...]\<close> loop of \<open>browse\<close>, with its \<open>try\<close> and \<open>break\<close>.\<close>

fun try_browsers :: "registry \<Rightarrow> controller \<Rightarrow> string list \<Rightarrow> exn + controller" where
  "try_browsers reg controller [] = Inr controller"
| "try_browsers reg controller (browser # browsers) =
     (case webbrowser_get reg (Some browser) of
        Inr found \<Rightarrow> Inr found
      | Inl e \<Rightarrow>
          if e = WebbrowserError then try_browsers reg controller browsers
          else Inl e)"

text \<open>\<open>browse\<close>: the exception that leaves it, if any, and its effects until then.\<close>

definition browse :: "registry \<Rightarrow> string option \<Rightarrow> exn option \<times> effect list" where
  "browse reg auth_uri =
     (case webbrowser_get reg None of
        Inl e \<Rightarrow> (Some e, [])
      | Inr dflt \<Rightarrow>
          (case try_browsers reg dflt
                  [''chrome'', ''firefox'', ''safari'', ''windows-default''] of
             Inl e \<Rightarrow> (Some e, [])
           | Inr controller \<Rightarrow>
               (let info = LogInfo (''Please open a browser on THIS device to visit: ''
                                      @ pystr auth_uri)
                in case controller_open controller auth_uri of
                     Inl e \<Rightarrow> (Some e, [info])
                   | Inr opened \<Rightarrow> (None, [info, opened]))))"

subsection \<open>The standard library's \<open>urlencode\<close>\<close>

text \<open>
  \<open>urlencode\<close> joins \<open>name=value\<close> fields with \<open>&\<close>, each side passed through
  \<open>quote_plus\<close>: letters, digits and \<open>_.-~\<close> stay, a space becomes \<open>+\<close>, any other byte
  of the UTF-8 encoding becomes \<open>%XX\<close>.
\<close>

definition quote_char :: "char \<Rightarrow> string" where
  "quote_char c =
     (let n = (of_char c :: nat)
      in if c = CHR '' '' then ''+''
         else if is_alpha c \<or> is_digit c \<or> c \<in> set ''_.-~'' then [c]
         else [CHR ''%'', ''0123456789ABCDEF'' ! (n div 16),
               ''0123456789ABCDEF'' ! (n mod 16)])"

definition quote_plus :: "string \<Rightarrow> string" where
  "quote_plus s = concat (map quote_char s)"

fun urlencode :: "(string \<times> string option) list \<Rightarrow> string" where
  "urlencode [] = []"
| "urlencode [(k, v)] = quote_plus k @ ''='' @ quote_plus (pystr v)"
| "urlencode ((k, v) # kvs) =
     quote_plus k @ ''='' @ quote_plus (pystr v) @ ''&'' @ urlencode kvs"

subsection \<open>\<open>obtain_auth_code\<close>\<close>

text \<open>
  The machine the function runs on: its browsers, the ports that cannot be bound, the
  port the system picks for port 0, and what will happen at the listening socket.
\<close>

record env =
  browsers :: registry
  ports_in_use :: "int list"
  ephemeral_port :: int
  events :: "event list"

definition exit_hint_of :: "int \<Rightarrow> string" where
  "exit_hint_of listen_port =
     ''Visit http://localhost:'' @ str_int listen_port @ ''?auth_code=exit to abort''"

definition page_of :: "int \<Rightarrow> string option \<Rightarrow> string option \<Rightarrow> string" where
  "page_of listen_port auth_uri text =
     ''http://localhost:'' @ str_int listen_port @ ''?''
       @ urlencode [(''text'', text), (''link'', auth_uri),
                    (''exit_hint'', Some (exit_hint_of listen_port))]"

text \<open>
  The result is what the call returns or raises, \<open>None\<close> when it does not return, with
  the effects it has had.
\<close>

definition obtain_auth_code ::
    "env \<Rightarrow> int \<Rightarrow> string option \<Rightarrow> string option \<Rightarrow> string option
       \<Rightarrow> (exn + string option) option \<times> effect list" where
  "obtain_auth_code env listen_port auth_uri text request_state =
     (let (logged, target) =
            (if truthy text
             then ([LogWarning (exit_hint_of listen_port)],
                   Some (page_of listen_port auth_uri text))
             else ([], auth_uri))
      in case browse (browsers env) target of
           (Some e, effects) \<Rightarrow> (Some (Inl e), logged @ effects)
         | (None, effects) \<Rightarrow>
             (case AuthcodeRedirectServer_init (ports_in_use env) (ephemeral_port env)
                     listen_port request_state of
                Inl e \<Rightarrow> (Some (Inl e), logged @ effects)
              | Inr server \<Rightarrow>
                  (case get_auth_code server (events env) of
                     None \<Rightarrow> None
                   | Some (result, _, _) \<Rightarrow> Some result,
                   logged @ effects @ [SocketBound (server_address server)])))"

section \<open>Properties\<close>

subsection \<open>The decoder never yields a blank value\<close>

lemma unquote_to_bytes_nonempty: "s \<noteq> [] \<Longrightarrow> unquote_to_bytes s \<noteq> []"
  by (cases s) (auto split: list.splits option.splits prod.splits)

lemma utf8_replace_nonempty: "s \<noteq> [] \<Longrightarrow> utf8_replace s \<noteq> []"
  by (cases s) (auto simp: replacement_def split: list.splits)

lemma runs_nonempty: "s \<noteq> [] \<Longrightarrow> runs s \<noteq> []"
  by (cases s) (auto split: list.splits prod.splits)

lemma runs_parts: "(a, r) \<in> set (runs s) \<Longrightarrow> r \<noteq> []"
proof (induction s arbitrary: a r)
  case Nil
  then show ?case by simp
next
  case (Cons c cs)
  show ?case
  proof (cases "runs cs")
    case Nil
    with Cons.prems show ?thesis by auto
  next
    case (Cons p more)
    obtain a' r' where p: "p = (a', r')" by (cases p)
    have "(a', r') \<in> set (runs cs)" using Cons p by simp
    then have r': "r' \<noteq> []" by (rule Cons.IH)
    have more: "(a, r) \<in> set more \<Longrightarrow> r \<noteq> []"
      using Cons.IH[of a r] Cons by simp
    from Cons.prems show ?thesis
      using Cons p r' more by (auto split: if_splits)
  qed
qed

lemma unquote_run_nonempty: "snd p \<noteq> [] \<Longrightarrow> unquote_run p \<noteq> []"
proof (cases "fst p")
  case True
  assume "snd p \<noteq> []"
  then show ?thesis
    using True
    by (simp add: unquote_run_def utf8_replace_nonempty unquote_to_bytes_nonempty)
next
  case False
  assume "snd p \<noteq> []"
  then obtain c cs where "snd p = c # cs" by (cases "snd p") auto
  then show ?thesis
    using False by (simp add: unquote_run_def latin1_to_utf8_def Let_def)
qed

lemma unquote_nonempty: "s \<noteq> [] \<Longrightarrow> unquote s \<noteq> []"
proof -
  assume "s \<noteq> []"
  then obtain p ps where runs: "runs s = p # ps"
    using runs_nonempty by (cases "runs s") auto
  then have "p \<in> set (runs s)" by simp
  then have "snd p \<noteq> []" using runs_parts[of "fst p" "snd p" s] by simp
  then have "unquote_run p \<noteq> []" by (rule unquote_run_nonempty)
  then show ?thesis by (simp add: unquote_def runs)
qed

lemma decoded_nonempty: "s \<noteq> [] \<Longrightarrow> unquote (plus_to_space s) \<noteq> []"
  by (rule unquote_nonempty) (simp add: plus_to_space_def)

lemma parse_qsl_fields_values: "(n, v) \<in> set (parse_qsl_fields fs) \<Longrightarrow> v \<noteq> []"
proof (induction fs)
  case Nil
  then show ?case by simp
next
  case (Cons f fs)
  let ?val = "drop 1 (dropWhile (\<lambda>c. c \<noteq> CHR ''='') f)"
  from Cons.prems have "(n, v) \<in> set (parse_qsl_fields fs)
      \<or> (?val \<noteq> [] \<and> v = unquote (plus_to_space ?val))"
    by (auto simp: Let_def split: if_splits)
  then show ?case
  proof
    assume "(n, v) \<in> set (parse_qsl_fields fs)"
    then show ?thesis by (rule Cons.IH)
  next
    assume "?val \<noteq> [] \<and> v = unquote (plus_to_space ?val)"
    then show ?thesis by (simp add: decoded_nonempty)
  qed
qed

lemma parse_qs_pairs_values:
  assumes "\<And>k vs. m k = Some vs \<Longrightarrow> vs \<noteq> [] \<and> [] \<notin> set vs"
    and "\<And>n v. (n, v) \<in> set pairs \<Longrightarrow> v \<noteq> []"
    and "parse_qs_pairs m pairs k = Some vs"
  shows "vs \<noteq> [] \<and> [] \<notin> set vs"
  using assms
proof (induction pairs arbitrary: m)
  case Nil
  then show ?case by simp
next
  case (Cons p pairs)
  obtain n v where p: "p = (n, v)" by (cases p)
  let ?m' = "case m n of Some vs \<Rightarrow> m(n \<mapsto> vs @ [v]) | None \<Rightarrow> m(n \<mapsto> [v])"
  have v: "v \<noteq> []" using Cons.prems(2)[of n v] p by simp
  have inv: "\<And>k vs. ?m' k = Some vs \<Longrightarrow> vs \<noteq> [] \<and> [] \<notin> set vs"
    using Cons.prems(1) v by (auto split: option.splits if_splits)
  have rest: "(n', v') \<in> set pairs \<Longrightarrow> v' \<noteq> []" for n' v'
    using Cons.prems(2)[of n' v'] by simp
  have "parse_qs_pairs ?m' pairs k = Some vs"
    using Cons.prems(3) p by simp
  from Cons.IH[OF inv rest this] show ?case .
qed

lemma parse_qs_values: "parse_qs q k = Some vs \<Longrightarrow> vs \<noteq> [] \<and> [] \<notin> set vs"
  unfolding parse_qs_def parse_qsl_def
  by (rule parse_qs_pairs_values[where m = Map.empty]) (auto dest: parse_qsl_fields_values)

lemma parse_qs_cons: "parse_qs q k = Some vs \<Longrightarrow> \<exists>v more. vs = v # more \<and> v \<noteq> []"
  using parse_qs_values[of q k vs] by (cases vs) auto

text \<open>
  A byte that is not UTF-8 is decoded to the replacement character.
\<close>

lemma unquote_replaces:
  "parse_qs ''code=%FF'' ''code'' = Some [[CHR 0xEF, CHR 0xBF, CHR 0xBD]]"
  by code_simp

subsection \<open>What a request does to the server\<close>

lemma get_first_parse_qs:
  "get_first (parse_qs q) k d = Inr (case parse_qs q k of None \<Rightarrow> d | Some vs \<Rightarrow> Some (hd vs))"
  using parse_qs_cons[of q k]
  by (auto simp: get_first_def split: option.splits list.splits)

lemma do_GET_captures:
  assumes "do_GET srv path = Inr (srv', resp)"
  shows "(srv' = srv \<and> body resp \<noteq> ''Authentication complete. You can close this window'')
         \<or> (\<exists>c. c \<noteq> [] \<and> srv' = srv\<lparr>auth_code := Some c\<rparr>
                 \<and> body resp = ''Authentication complete. You can close this window'')"
proof -
  from assms obtain query where query: "urlparse_query path = Inr query"
    by (cases "urlparse_query path") (auto simp: do_GET_def)
  show ?thesis
  proof (cases "parse_qs query ''code''")
    case None
    with assms query show ?thesis
      by (auto simp: do_GET_def Let_def send_full_response_def
               split: option.splits list.splits sum.splits)
  next
    case (Some codes)
    then obtain c more where codes: "codes = c # more" and c: "c \<noteq> []"
      using parse_qs_cons by blast
    with assms Some query show ?thesis
      by (auto simp: do_GET_def Let_def send_full_response_def
               split: sum.splits bool.splits if_splits)
  qed
qed

lemma do_GET_cases:
  assumes "do_GET srv path = Inr (srv', resp)"
  shows "srv' = srv \<or> (\<exists>c. c \<noteq> [] \<and> srv' = srv\<lparr>auth_code := Some c\<rparr>)"
  using do_GET_captures[OF assms] by blast

lemma urlparse_query_raises: "urlparse_query path = Inl e \<Longrightarrow> e = ValueError"
  by (auto simp: urlparse_query_def Let_def split: if_splits)

lemma do_GET_raises: "do_GET srv path = Inl e \<Longrightarrow> e = ValueError \<or> e = IndexError"
proof (cases "urlparse_query path")
  case (Inl e')
  assume "do_GET srv path = Inl e"
  with Inl urlparse_query_raises[OF Inl] show ?thesis
    by (simp add: do_GET_def)
next
  case (Inr query)
  assume "do_GET srv path = Inl e"
  with Inr show ?thesis
    by (auto simp: do_GET_def Let_def get_first_def
             split: option.splits list.splits sum.splits bool.splits if_splits)
qed

lemma process_request_returns: "\<exists>srv'. process_request srv path = Inr srv'"
  using do_GET_raises[of srv path]
  by (cases "do_GET srv path") (auto simp: process_request_def)

lemma process_request_cases:
  assumes "process_request srv path = Inr srv'"
  shows "socket_closed srv' = socket_closed srv"
    and "port_releases srv' = port_releases srv"
    and "auth_code srv' = auth_code srv \<or> truthy (auth_code srv')"
  using assms do_GET_cases[of srv path]
  by (auto simp: process_request_def truthy_def split: sum.splits if_splits)

lemma process_request_captures:
  assumes "process_request srv path = Inr srv1" and "\<not> truthy (auth_code srv)"
  shows "(auth_code srv1 = auth_code srv \<and> captures srv1 = captures srv)
         \<or> (truthy (auth_code srv1) \<and> captures srv1 = Suc (captures srv))"
proof (cases "do_GET srv path")
  case (Inl e)
  with assms(1) show ?thesis
    by (auto simp: process_request_def split: if_splits)
next
  case (Inr r)
  obtain srv' resp where r: "r = (srv', resp)" by (cases r)
  have srv1: "srv1 = srv'\<lparr>responses := responses srv' @ [resp]\<rparr>"
    using assms(1) Inr r by (simp add: process_request_def)
  from do_GET_captures[OF Inr[unfolded r]] show ?thesis
    by (auto simp: srv1 captures_def truthy_def)
qed

subsection \<open>One turn of the receive loop\<close>

lemma loop_done: "truthy (auth_code srv) \<Longrightarrow> get_auth_code_loop srv evs = Some (None, srv, evs)"
  by (subst get_auth_code_loop.simps) simp

lemma loop_closed: "socket_closed srv \<Longrightarrow> get_auth_code_loop srv evs = Some (None, srv, evs)"
  by (subst get_auth_code_loop.simps) (simp add: handle_request_def)

lemma loop_step:
  assumes "\<not> truthy (auth_code srv)" and "\<not> socket_closed srv"
  shows "get_auth_code_loop srv (ev # evs) =
     (case ev of
        Request path \<Rightarrow> get_auth_code_loop (projr (process_request srv path)) evs
      | Stall \<Rightarrow> None
      | Other \<Rightarrow> get_auth_code_loop srv evs
      | Timeout \<Rightarrow> Some (None, server_close srv, evs)
      | Interrupt \<Rightarrow> Some (Some KeyboardInterrupt, srv, evs))"
proof (cases ev)
  case (Request path)
  obtain srv' where "process_request srv path = Inr srv'"
    using process_request_returns by blast
  with assms show ?thesis
    by (subst get_auth_code_loop.simps) (simp add: handle_request_def Request)
next
  case Stall
  with assms show ?thesis
    by (subst get_auth_code_loop.simps) (simp add: handle_request_def)
next
  case Other
  with assms show ?thesis
    by (subst get_auth_code_loop.simps) (simp add: handle_request_def)
next
  case Timeout
  with assms show ?thesis
    by (subst get_auth_code_loop.simps)
       (simp add: handle_request_def handle_timeout_def loop_closed server_close_def)
next
  case Interrupt
  with assms show ?thesis
    by (subst get_auth_code_loop.simps) (simp add: handle_request_def)
qed

lemma loop_blocked:
  "\<not> truthy (auth_code srv) \<Longrightarrow> \<not> socket_closed srv \<Longrightarrow> get_auth_code_loop srv [] = None"
  by (subst get_auth_code_loop.simps) (simp add: handle_request_def)


subsection \<open>Captures in a session\<close>

lemma loop_captures:
  assumes "get_auth_code_loop srv evs = Some (raised, srv', rest)"
    and "\<not> socket_closed srv" and "\<not> truthy (auth_code srv)"
  shows "(auth_code srv' = auth_code srv \<and> captures srv' = captures srv)
         \<or> (truthy (auth_code srv') \<and> captures srv' = Suc (captures srv))"
  using assms
proof (induction evs arbitrary: srv)
  case Nil
  then show ?case by (simp add: loop_blocked)
next
  case (Cons ev evs)
  note step = loop_step[OF Cons.prems(3) Cons.prems(2), of ev evs]
  show ?case
  proof (cases ev)
    case (Request path)
    obtain srv1 where srv1: "process_request srv path = Inr srv1"
      using process_request_returns by blast
    have run: "get_auth_code_loop srv1 evs = Some (raised, srv', rest)"
      using Cons.prems(1) step Request srv1 by simp
    have open1: "\<not> socket_closed srv1"
      using process_request_cases(1)[OF srv1] Cons.prems(2) by simp
    from process_request_captures[OF srv1 Cons.prems(3)] show ?thesis
    proof
      assume same: "auth_code srv1 = auth_code srv \<and> captures srv1 = captures srv"
      then have "\<not> truthy (auth_code srv1)" using Cons.prems(3) by simp
      from Cons.IH[OF run open1 this] same show ?thesis by simp
    next
      assume set: "truthy (auth_code srv1) \<and> captures srv1 = Suc (captures srv)"
      then have "srv' = srv1" using run by (simp add: loop_done)
      with set show ?thesis by simp
    qed
  next
    case Stall
    with Cons.prems(1) step show ?thesis by simp
  next
    case Other
    with Cons.prems(1) step have "get_auth_code_loop srv evs = Some (raised, srv', rest)"
      by simp
    from Cons.IH[OF this Cons.prems(2,3)] show ?thesis .
  next
    case Timeout
    with Cons.prems(1) step have "srv' = server_close srv" by simp
    then show ?thesis by (simp add: server_close_def captures_def)
  next
    case Interrupt
    with Cons.prems(1) step have "srv' = srv" by simp
    then show ?thesis by simp
  qed
qed

lemma session_captures:
  assumes "AuthcodeRedirectServer_init unbindable ephemeral port request_state = Inr srv"
    and "get_auth_code srv evs = Some (result, final, rest)"
  shows "captures final = (if truthy (auth_code final) then 1 else 0)"
proof -
  have fresh: "\<not> socket_closed srv" "\<not> truthy (auth_code srv)" "captures srv = 0"
    using assms(1)
    by (auto simp: AuthcodeRedirectServer_init_def truthy_def captures_def split: if_splits)
  from assms(2) obtain raised srv' where
    loop: "get_auth_code_loop srv evs = Some (raised, srv', rest)"
    and final: "final = server_close srv'"
    by (auto simp: get_auth_code_def Let_def split: option.splits prod.splits)
  have "auth_code final = auth_code srv'" "captures final = captures srv'"
    by (simp_all add: final server_close_def captures_def)
  with loop_captures[OF loop fresh(1,2)] fresh(2,3) show ?thesis
    by auto
qed

lemma capture_stops_loop:
  assumes "\<not> truthy (auth_code srv)"
    and "handle_request srv (ev # evs) = Some (Inr srv', rest)"
    and "auth_code srv' \<noteq> auth_code srv"
  shows "truthy (auth_code srv') \<and> rest = evs
         \<and> get_auth_code_loop srv (ev # evs) = Some (None, srv', evs)
         \<and> get_auth_code srv (ev # evs)
             = Some (Inr (auth_code srv'), server_close srv', evs)"
proof -
  have opened: "\<not> socket_closed srv"
    using assms(2) by (auto simp: handle_request_def split: if_splits)
  obtain path where ev: "ev = Request path"
    and srv': "process_request srv path = Inr srv'" and rest: "rest = evs"
    using assms(2,3) opened
    by (cases ev) (auto simp: handle_request_def handle_timeout_def server_close_def)
  have set: "truthy (auth_code srv')"
    using process_request_cases(3)[OF srv'] assms(3) by simp
  have loop: "get_auth_code_loop srv (ev # evs) = Some (None, srv', evs)"
    using loop_step[OF assms(1) opened, of ev evs] ev srv' by (simp add: loop_done[OF set])
  show ?thesis
    using set rest loop by (simp add: get_auth_code_def server_close_def)
qed

subsection \<open>A request on which the handler raises\<close>

lemma state_mismatch_raises:
  assumes "urlparse_query path = Inr query"
    and "parse_qs query ''code'' = Some codes"
    and "truthy (state srv)"
    and "state srv \<noteq> (case parse_qs query ''state'' of
                         None \<Rightarrow> None | Some states \<Rightarrow> Some (hd states))"
  shows "do_GET srv path = Inl ValueError"
proof -
  obtain c more where codes: "codes = c # more"
    using parse_qs_cons[OF assms(2)] by blast
  show ?thesis
    unfolding do_GET_def assms(1) Let_def
    using assms(2,3,4) by (simp add: codes get_first_parse_qs)
qed

lemma raising_request_is_skipped:
  assumes "do_GET srv path = Inl e"
    and "\<not> truthy (auth_code srv)" and "\<not> socket_closed srv"
  shows "get_auth_code srv (Request path # evs) = get_auth_code srv evs"
proof -
  have "e \<noteq> KeyboardInterrupt"
    using do_GET_raises[OF assms(1)] by auto
  then have "process_request srv path = Inr srv"
    using assms(1) by (simp add: process_request_def)
  then show ?thesis
    using loop_step[OF assms(2,3), of "Request path" evs]
    by (simp add: get_auth_code_def)
qed

subsection \<open>The browser step\<close>

lemma try_browsers_skips:
  "webbrowser_get reg (Some browser) = Inl WebbrowserError \<Longrightarrow>
   try_browsers reg controller (browser # others) = try_browsers reg controller others"
  by simp

lemma try_browsers_returns: "\<exists>c. try_browsers reg controller names = Inr c"
  by (induction names) (auto simp: webbrowser_get_def split: option.splits)

lemma browse_raises:
  "browse reg uri = (Some e, effects) \<Longrightarrow> \<forall>a. SocketBound a \<notin> set effects"
  by (auto simp: browse_def Let_def split: sum.splits)

lemma browse_returns:
  "browse reg target = (None, effects) \<Longrightarrow>
   \<exists>c uri. target = Some uri
     \<and> effects = [LogInfo (''Please open a browser on THIS device to visit: '' @ uri),
                   BrowserOpen c uri]"
  by (auto simp: browse_def Let_def controller_open_def pystr_def
           split: sum.splits option.splits if_splits)

lemma browse_total:
  assumes "map_of reg None \<noteq> None" and "CHR 0x00 \<notin> set uri"
  shows "\<exists>effects. browse reg (Some uri) = (None, effects)"
proof -
  obtain dflt where dflt: "webbrowser_get reg None = Inr dflt"
    using assms(1) by (auto simp: webbrowser_get_def)
  obtain c where "try_browsers reg dflt
      [''chrome'', ''firefox'', ''safari'', ''windows-default''] = Inr c"
    using try_browsers_returns by blast
  with dflt assms(2) show ?thesis
    by (simp add: browse_def controller_open_def)
qed

text \<open>
  The equations that evaluate a run on concrete requests.
\<close>

lemmas eval_defs =
  urlparse_query_def strip_url_def drop_scheme_def is_delim_def is_alpha_def is_digit_def
  scheme_char_def parse_qs_def parse_qsl_def plus_to_space_def unquote_def unquote_run_def
  hex_digit_def get_first_def
  truthy_def pystr_def send_full_response_def do_GET_def Let_def
  process_request_def handle_request_def handle_timeout_def server_close_def
  get_auth_code_def get_auth_code_loop.simps

section \<open>The claims\<close>

subsection \<open>C1: a state mismatch does not end the wait\<close>

text \<open>
  Claim C1 says that a request with a \<open>code\<close> and a \<open>state\<close> other than the expected one
  makes the handler raise, the loop exit at once and \<open>get_auth_code\<close> return no code.
  The handler does raise \<open>ValueError\<close> without touching \<open>auth_code\<close>. But the exception
  is raised inside \<open>handle_request\<close>, which hands every \<open>Exception\<close> of the handler to
  \<open>handle_error\<close> and returns normally, so the \<open>except ValueError: break\<close> of the loop
  never sees it (\<open>state_mismatch_raises\<close>, \<open>raising_request_is_skipped\<close>). With the
  expected state \<open>xyz\<close>: after the request
  \<open>/?code=abc123&state=wrong\<close> the call is still blocked, and a later request with the
  right state is captured and returned.
\<close>

theorem state_mismatch_keeps_listening:
  "do_GET \<lparr>server_address = (''0.0.0.0'', 8080), state = Some ''xyz'', auth_code = None,
           timeout = 300, socket_closed = False, port_releases = 0, responses = []\<rparr>
      ''/?code=abc123&state=wrong''
     = Inl ValueError
   \<and> get_auth_code
       \<lparr>server_address = (''0.0.0.0'', 8080), state = Some ''xyz'', auth_code = None,
        timeout = 300, socket_closed = False, port_releases = 0, responses = []\<rparr>
       [Request ''/?code=abc123&state=wrong'']
     = None
   \<and> get_auth_code
       \<lparr>server_address = (''0.0.0.0'', 8080), state = Some ''xyz'', auth_code = None,
        timeout = 300, socket_closed = False, port_releases = 0, responses = []\<rparr>
       [Request ''/?code=abc123&state=wrong'', Request ''/?code=later&state=xyz'']
     = Some (Inr (Some ''later''),
             \<lparr>server_address = (''0.0.0.0'', 8080), state = Some ''xyz'',
              auth_code = Some ''later'', timeout = 300, socket_closed = True,
              port_releases = 1,
              responses = [\<lparr>status = 200, content_type = ''text/plain'',
                body = ''Authentication complete. You can close this window''\<rparr>]\<rparr>,
             [])"
  by (simp add: eval_defs)

subsection \<open>C2: a request with a code and a valid state is captured\<close>

text \<open>
  Claim C2 says that every GET request whose query string has a \<open>code\<close> parameter and
  whose state is valid is captured and answered. A target that \<open>urlparse\<close> rejects is
  not: for \<open>http://[/?code=abc123\<close>, whose query \<open>code=abc123\<close> has the parameter,
  \<open>do_GET\<close> raises \<open>ValueError\<close> before it stores or sends anything, and \<open>handle_request\<close>
  returns with the server as it was.
\<close>

theorem capture_rejected_target_counterexample:
  "parse_qs ''code=abc123'' ''code'' = Some [''abc123'']
   \<and> do_GET \<lparr>server_address = (''0.0.0.0'', 8080), state = None, auth_code = None,
             timeout = 300, socket_closed = False, port_releases = 0, responses = []\<rparr>
        ''http://[/?code=abc123''
      = Inl ValueError
   \<and> handle_request
        \<lparr>server_address = (''0.0.0.0'', 8080), state = None, auth_code = None,
         timeout = 300, socket_closed = False, port_releases = 0, responses = []\<rparr>
        [Request ''http://[/?code=abc123'']
      = Some (Inr \<lparr>server_address = (''0.0.0.0'', 8080), state = None, auth_code = None,
                    timeout = 300, socket_closed = False, port_releases = 0,
                    responses = []\<rparr>, [])"
  by (simp add: eval_defs)

text \<open>
  Claim C2, amended. Whenever \<open>urlparse\<close> accepts the target of a GET request, the
  decoded query has a \<open>code\<close> entry, whatever other parameters it has, and the state
  check passes (the expected state is absent or empty, or equals the first \<open>state\<close>
  value of the request), \<open>do_GET\<close> stores the first \<open>code\<close> value in \<open>auth_code\<close> and
  answers with status 200, content type \<open>text/plain\<close> and the body
  \<open>Authentication complete. You can close this window\<close>. A parameter is present when
  the decoder reports it, that is, with a value that is not blank (see C9).
\<close>

theorem code_capture:
  assumes target: "urlparse_query path = Inr query"
    and code: "parse_qs query ''code'' = Some codes"
    and valid: "\<not> truthy (state srv)
                \<or> (\<exists>states. parse_qs query ''state'' = Some states
                             \<and> state srv = Some (hd states))"
  shows "do_GET srv path =
           Inr (srv\<lparr>auth_code := Some (hd codes)\<rparr>,
                \<lparr>status = 200, content_type = ''text/plain'',
                 body = ''Authentication complete. You can close this window''\<rparr>)"
proof -
  obtain c more where codes: "codes = c # more"
    using parse_qs_cons[OF code] by blast
  have check: "(if truthy (state srv)
                then (case get_first (parse_qs query) ''state'' None of
                        Inl e \<Rightarrow> Inl e
                      | Inr st \<Rightarrow> Inr (state srv \<noteq> st))
                else Inr False) = Inr False"
    using valid by (auto simp: get_first_parse_qs)
  show ?thesis
    unfolding do_GET_def target Let_def
    by (simp add: code codes check send_full_response_def)
qed

theorem code_capture_witness:
  "urlparse_query ''/cb?text=Login&link=L&code=abc123&state=xyz&code=second''
     = Inr ''text=Login&link=L&code=abc123&state=xyz&code=second''
   \<and> parse_qs ''text=Login&link=L&code=abc123&state=xyz&code=second'' ''code''
     = Some [''abc123'', ''second'']
   \<and> do_GET \<lparr>server_address = (''0.0.0.0'', 8080), state = Some ''xyz'', auth_code = None,
              timeout = 300, socket_closed = False, port_releases = 0,
              responses = []\<rparr>
        ''/cb?text=Login&link=L&code=abc123&state=xyz&code=second''
      = Inr (\<lparr>server_address = (''0.0.0.0'', 8080), state = Some ''xyz'',
              auth_code = Some ''abc123'', timeout = 300, socket_closed = False,
              port_releases = 0, responses = []\<rparr>,
             \<lparr>status = 200, content_type = ''text/plain'',
              body = ''Authentication complete. You can close this window''\<rparr>)"
proof -
  let ?p = "''/cb?text=Login&link=L&code=abc123&state=xyz&code=second''"
  let ?q = "''text=Login&link=L&code=abc123&state=xyz&code=second''"
  let ?S = "\<lparr>server_address = (''0.0.0.0'', 8080), state = Some ''xyz'', auth_code = None,
              timeout = 300, socket_closed = False, port_releases = 0,
              responses = []\<rparr>"
  have h0: "urlparse_query ?p = Inr ?q"
    by (simp add: eval_defs)
  have h1: "parse_qs ?q ''code'' = Some [''abc123'', ''second'']"
    by (simp add: eval_defs)
  have h2: "\<not> truthy (state ?S)
            \<or> (\<exists>states. parse_qs ?q ''state'' = Some states
                         \<and> state ?S = Some (hd states))"
    by (simp add: eval_defs)
  from code_capture[OF h0 h1 h2] h0 h1 show ?thesis by simp
qed

subsection \<open>C3: the first capture ends the session\<close>

text \<open>
  Claim C3. When a turn of the loop changes \<open>auth_code\<close>, the new value is true for the
  loop condition, so the loop stops there: whatever events \<open>evs\<close> would follow, none of
  them is consumed, no further \<open>handle_request\<close> is issued, and \<open>get_auth_code\<close> returns
  exactly the code that was set. Over a whole session, from the construction of the
  server to the end of \<open>get_auth_code\<close>, a code is captured at most once: once if the
  session ends with a code, never otherwise.
\<close>

theorem capture_at_most_once:
  "(\<not> truthy (auth_code srv) \<longrightarrow>
      handle_request srv (ev # evs) = Some (Inr srv', rest) \<longrightarrow>
      auth_code srv' \<noteq> auth_code srv \<longrightarrow>
        truthy (auth_code srv') \<and> rest = evs
        \<and> get_auth_code_loop srv (ev # evs) = Some (None, srv', evs)
        \<and> get_auth_code srv (ev # evs)
            = Some (Inr (auth_code srv'), server_close srv', evs))
   \<and> (AuthcodeRedirectServer_init unbindable ephemeral port request_state = Inr fresh \<longrightarrow>
        get_auth_code fresh session = Some (result, final, unread) \<longrightarrow>
          captures final = (if truthy (auth_code final) then 1 else 0))"
  using capture_stops_loop[of srv ev evs srv' rest]
    session_captures[of unbindable ephemeral port request_state fresh session result final
      unread]
  by blast

theorem capture_at_most_once_witness:
  "\<not> truthy (auth_code
        \<lparr>server_address = (''0.0.0.0'', 8080), state = None, auth_code = None,
         timeout = 300, socket_closed = False, port_releases = 0, responses = []\<rparr>)
   \<and> AuthcodeRedirectServer_init [] 49152 8080 None
      = Inr \<lparr>server_address = (''0.0.0.0'', 8080), state = None, auth_code = None,
             timeout = 300, socket_closed = False, port_releases = 0, responses = []\<rparr>
   \<and> get_auth_code
        \<lparr>server_address = (''0.0.0.0'', 8080), state = None, auth_code = None,
         timeout = 300, socket_closed = False, port_releases = 0, responses = []\<rparr>
        [Request ''/?code=abc123'', Request ''/?code=other'']
      = Some (Inr (Some ''abc123''),
              \<lparr>server_address = (''0.0.0.0'', 8080), state = None,
               auth_code = Some ''abc123'', timeout = 300, socket_closed = True,
               port_releases = 1,
               responses = [\<lparr>status = 200, content_type = ''text/plain'',
                 body = ''Authentication complete. You can close this window''\<rparr>]\<rparr>,
              [Request ''/?code=other''])
   \<and> captures
        \<lparr>server_address = (''0.0.0.0'', 8080), state = None, auth_code = Some ''abc123'',
         timeout = 300, socket_closed = True, port_releases = 1,
         responses = [\<lparr>status = 200, content_type = ''text/plain'',
           body = ''Authentication complete. You can close this window''\<rparr>]\<rparr> = 1"
proof -
  let ?S = "\<lparr>server_address = (''0.0.0.0'', 8080), state = None, auth_code = None,
         timeout = 300, socket_closed = False, port_releases = 0, responses = []\<rparr>"
  let ?R = "\<lparr>status = 200, content_type = ''text/plain'',
                 body = ''Authentication complete. You can close this window''\<rparr>"
  let ?S' = "\<lparr>server_address = (''0.0.0.0'', 8080), state = None,
               auth_code = Some ''abc123'', timeout = 300, socket_closed = False,
               port_releases = 0, responses = [?R]\<rparr>"
  let ?F = "\<lparr>server_address = (''0.0.0.0'', 8080), state = None,
               auth_code = Some ''abc123'', timeout = 300, socket_closed = True,
               port_releases = 1, responses = [?R]\<rparr>"
  let ?evs = "[Request ''/?code=abc123'', Request ''/?code=other'']"
  have h1: "\<not> truthy (auth_code ?S)" by (simp add: truthy_def)
  have h2: "handle_request ?S ?evs = Some (Inr ?S', [Request ''/?code=other''])"
    by (simp add: eval_defs)
  have h3: "auth_code ?S' \<noteq> auth_code ?S" by simp
  have h4: "AuthcodeRedirectServer_init [] 49152 8080 None = Inr ?S"
    by (simp add: AuthcodeRedirectServer_init_def)
  have h5: "get_auth_code ?S ?evs = Some (Inr (Some ''abc123''), ?F, [Request ''/?code=other''])"
    by (simp add: eval_defs)
  have h6: "truthy (auth_code ?F)" by (simp add: truthy_def)
  note inst = capture_at_most_once[of ?S "Request ''/?code=abc123''" "[Request ''/?code=other'']"
        ?S' "[Request ''/?code=other'']" "[]" 49152 8080 None ?S ?evs
        "Inr (Some ''abc123'')" ?F "[Request ''/?code=other'']"]
  have stops: "get_auth_code ?S ?evs
                 = Some (Inr (auth_code ?S'), server_close ?S', [Request ''/?code=other''])"
    using inst h1 h2 h3 by blast
  have once: "captures ?F = (if truthy (auth_code ?F) then 1 else 0)"
    using inst h4 h5 by blast
  have "captures ?F = 1"
    using once h6 by simp
  with h1 h4 stops show ?thesis
    by (simp add: server_close_def)
qed

subsection \<open>C4: timeout and the closing of the socket\<close>




subsection \<open>C5: the address the listener binds\<close>

text \<open>
  Claim C5 says that the listener binds the loopback interface only, at
  \<open>127.0.0.1\<close>. The constructor passes the empty host to \<open>HTTPServer\<close>, and the address
  of the server is \<open>0.0.0.0\<close>, the wildcard of IPv4.
\<close>

theorem binds_wildcard_counterexample:
  "AuthcodeRedirectServer_init [] 49152 8080 None
     = Inr \<lparr>server_address = (''0.0.0.0'', 8080), state = None, auth_code = None,
            timeout = 300, socket_closed = False, port_releases = 0, responses = []\<rparr>
   \<and> (''0.0.0.0'', 8080) \<noteq> (''127.0.0.1'', 8080::int)"
  by (simp add: AuthcodeRedirectServer_init_def)

text \<open>
  Claim C5, amended. The listener binds its socket to the IPv4 wildcard address: the
  address of every server constructed is \<open>0.0.0.0\<close> with \<open>listen_port\<close> (for port 0, the
  port the system picks), not \<open>127.0.0.1\<close>.
\<close>

theorem binds_wildcard:
  assumes "AuthcodeRedirectServer_init unbindable ephemeral port request_state = Inr srv"
  shows "server_address srv = (''0.0.0.0'', if port = 0 then ephemeral else port)
         \<and> fst (server_address srv) \<noteq> ''127.0.0.1''"
  using assms
  by (auto simp: AuthcodeRedirectServer_init_def split: if_splits)

theorem binds_wildcard_witness:
  "AuthcodeRedirectServer_init [5000] 49152 8080 (Some ''xyz'')
     = Inr \<lparr>server_address = (''0.0.0.0'', 8080), state = Some ''xyz'', auth_code = None,
            timeout = 300, socket_closed = False, port_releases = 0, responses = []\<rparr>
   \<and> ''0.0.0.0'' \<noteq> ''127.0.0.1''"
proof -
  have h: "AuthcodeRedirectServer_init [5000] 49152 8080 (Some ''xyz'')
     = Inr \<lparr>server_address = (''0.0.0.0'', 8080), state = Some ''xyz'', auth_code = None,
            timeout = 300, socket_closed = False, port_releases = 0, responses = []\<rparr>"
    by (simp add: AuthcodeRedirectServer_init_def)
  from binds_wildcard[OF h] h show ?thesis by simp
qed

subsection \<open>C6: the landing page\<close>

text \<open>
  Claim C6 says that every GET request whose query string has \<open>text\<close> and \<open>link\<close> but no
  \<open>code\<close> gets the landing page. A target that \<open>urlparse\<close> rejects does not: for
  \<open>http://host]/?text=Login&link=L\<close> the handler raises \<open>ValueError\<close> and nothing is
  sent.
\<close>

theorem landing_page_rejected_target_counterexample:
  "parse_qs ''text=Login&link=L'' ''text'' = Some [''Login'']
   \<and> parse_qs ''text=Login&link=L'' ''link'' = Some [''L'']
   \<and> parse_qs ''text=Login&link=L'' ''code'' = None
   \<and> do_GET \<lparr>server_address = (''0.0.0.0'', 8080), state = None, auth_code = None,
             timeout = 300, socket_closed = False, port_releases = 0, responses = []\<rparr>
        ''http://host]/?text=Login&link=L''
      = Inl ValueError
   \<and> handle_request
        \<lparr>server_address = (''0.0.0.0'', 8080), state = None, auth_code = None,
         timeout = 300, socket_closed = False, port_releases = 0, responses = []\<rparr>
        [Request ''http://host]/?text=Login&link=L'']
      = Some (Inr \<lparr>server_address = (''0.0.0.0'', 8080), state = None, auth_code = None,
                    timeout = 300, socket_closed = False, port_releases = 0,
                    responses = []\<rparr>, [])"
  by (simp add: eval_defs)

text \<open>
  Claim C6, amended. A GET request whose target \<open>urlparse\<close> accepts and whose decoded
  query has no \<open>code\<close> but has \<open>text\<close> and \<open>link\<close> is answered with status 200, content
  type \<open>text/html\<close> and the body \<open><a href=L>T</a><hr/>H\<close>, where \<open>L\<close> and \<open>T\<close> are the first
  \<open>link\<close> and \<open>text\<close> values and \<open>H\<close> is the first \<open>exit_hint\<close> value, inserted as it
  is, or empty when there is none. The server is left unchanged.
\<close>

theorem landing_page:
  assumes "urlparse_query path = Inr query"
    and "parse_qs query ''code'' = None"
    and "parse_qs query ''text'' = Some texts"
    and "parse_qs query ''link'' = Some links"
  shows "do_GET srv path =
           Inr (srv,
                \<lparr>status = 200, content_type = ''text/html'',
                 body = ''<a href='' @ hd links @ ''>'' @ hd texts @ ''</a><hr/>''
                          @ (case parse_qs query ''exit_hint'' of
                               None \<Rightarrow> []
                             | Some hints \<Rightarrow> hd hints)\<rparr>)"
proof -
  obtain t tmore where texts: "texts = t # tmore"
    using parse_qs_cons[OF assms(3)] by blast
  obtain l lmore where links: "links = l # lmore"
    using parse_qs_cons[OF assms(4)] by blast
  show ?thesis
    unfolding do_GET_def assms(1) Let_def
    by (simp add: assms(2,3,4) texts links get_first_parse_qs send_full_response_def pystr_def
             split: option.splits)
qed

theorem landing_page_witness:
  "urlparse_query ''/?text=Login&link=http://example.com/auth''
     = Inr ''text=Login&link=http://example.com/auth''
   \<and> parse_qs ''text=Login&link=http://example.com/auth'' ''code'' = None
   \<and> parse_qs ''text=Login&link=http://example.com/auth'' ''text'' = Some [''Login'']
   \<and> parse_qs ''text=Login&link=http://example.com/auth'' ''link''
       = Some [''http://example.com/auth'']
   \<and> do_GET \<lparr>server_address = (''0.0.0.0'', 8080), state = None, auth_code = None,
              timeout = 300, socket_closed = False, port_releases = 0,
              responses = []\<rparr>
        ''/?text=Login&link=http://example.com/auth''
      = Inr (\<lparr>server_address = (''0.0.0.0'', 8080), state = None, auth_code = None,
              timeout = 300, socket_closed = False, port_releases = 0,
              responses = []\<rparr>,
             \<lparr>status = 200, content_type = ''text/html'',
              body = ''<a href=http://example.com/auth>Login</a><hr/>''\<rparr>)"
proof -
  let ?p = "''/?text=Login&link=http://example.com/auth''"
  let ?q = "''text=Login&link=http://example.com/auth''"
  have h0: "urlparse_query ?p = Inr ?q" by (simp add: eval_defs)
  have h1: "parse_qs ?q ''code'' = None" by (simp add: eval_defs)
  have h2: "parse_qs ?q ''text'' = Some [''Login'']" by (simp add: eval_defs)
  have h3: "parse_qs ?q ''link'' = Some [''http://example.com/auth'']"
    by (simp add: eval_defs)
  have h4: "parse_qs ?q ''exit_hint'' = None" by (simp add: eval_defs)
  from landing_page[OF h0 h1 h2 h3] h0 h1 h2 h3 h4 show ?thesis by simp
qed

subsection \<open>C7: the default answer\<close>

text \<open>
  Claim C7 says that every GET request whose query string has neither a \<open>code\<close> nor
  both \<open>text\<close> and \<open>link\<close> gets the default answer. A target that \<open>urlparse\<close> rejects
  does not: for \<open>http://[/\<close>, which has no query at all, the handler raises
  \<open>ValueError\<close> and nothing is sent.
\<close>

theorem default_rejected_target_counterexample:
  "parse_qs [] ''code'' = None \<and> parse_qs [] ''text'' = None
   \<and> do_GET \<lparr>server_address = (''0.0.0.0'', 8080), state = None, auth_code = None,
             timeout = 300, socket_closed = False, port_releases = 0, responses = []\<rparr>
        ''http://[/''
      = Inl ValueError
   \<and> handle_request
        \<lparr>server_address = (''0.0.0.0'', 8080), state = None, auth_code = None,
         timeout = 300, socket_closed = False, port_releases = 0, responses = []\<rparr>
        [Request ''http://[/'']
      = Some (Inr \<lparr>server_address = (''0.0.0.0'', 8080), state = None, auth_code = None,
                    timeout = 300, socket_closed = False, port_releases = 0,
                    responses = []\<rparr>, [])"
  by (simp add: eval_defs)

text \<open>
  Claim C7, amended. A GET request whose target \<open>urlparse\<close> accepts and whose decoded
  query has neither a \<open>code\<close> nor both \<open>text\<close> and \<open>link\<close> is answered with status 200,
  content type \<open>text/plain\<close> and the body \<open>This web service serves your redirect_uri\<close>,
  and the server is left unchanged.
\<close>

theorem default_response:
  assumes "urlparse_query path = Inr query"
    and "parse_qs query ''code'' = None"
    and "parse_qs query ''text'' = None \<or> parse_qs query ''link'' = None"
  shows "do_GET srv path =
           Inr (srv,
                \<lparr>status = 200, content_type = ''text/plain'',
                 body = ''This web service serves your redirect_uri''\<rparr>)"
  using assms(2,3) unfolding do_GET_def assms(1)
  by (auto simp: Let_def send_full_response_def split: option.splits list.splits)

theorem default_response_witness:
  "urlparse_query ''/?text=Login&state=xyz'' = Inr ''text=Login&state=xyz''
   \<and> parse_qs ''text=Login&state=xyz'' ''code'' = None
   \<and> parse_qs ''text=Login&state=xyz'' ''link'' = None
   \<and> do_GET \<lparr>server_address = (''0.0.0.0'', 8080), state = Some ''xyz'', auth_code = None,
              timeout = 300, socket_closed = False, port_releases = 0,
              responses = []\<rparr>
        ''/?text=Login&state=xyz''
      = Inr (\<lparr>server_address = (''0.0.0.0'', 8080), state = Some ''xyz'', auth_code = None,
              timeout = 300, socket_closed = False, port_releases = 0,
              responses = []\<rparr>,
             \<lparr>status = 200, content_type = ''text/plain'',
              body = ''This web service serves your redirect_uri''\<rparr>)"
proof -
  let ?p = "''/?text=Login&state=xyz''"
  let ?q = "''text=Login&state=xyz''"
  have h0: "urlparse_query ?p = Inr ?q" by (simp add: eval_defs)
  have h1: "parse_qs ?q ''code'' = None" by (simp add: eval_defs)
  have h2: "parse_qs ?q ''link'' = None" by (simp add: eval_defs)
  from default_response[OF h0 h1 disjI2[OF h2]] h0 h1 h2 show ?thesis by simp
qed

subsection \<open>C8: a machine without a browser\<close>

text \<open>
  Claim C8 says that failing to find a preferred browser is swallowed, and that finding
  no browser at all is not fatal. The first half holds (\<open>try_browsers_skips\<close>,
  \<open>try_browsers_returns\<close>). But \<open>browse\<close> starts with \<open>webbrowser.get()\<close> outside any
  \<open>try\<close>: on a machine with no browser registered it raises \<open>webbrowser.Error\<close>, which
  leaves \<open>browse\<close> and \<open>obtain_auth_code\<close> before the server is constructed, although
  a request with a code is on its way.
\<close>

theorem no_browser_is_fatal:
  "browse [] (Some ''https://login.example.com/authorize'') = (Some WebbrowserError, [])
   \<and> obtain_auth_code
       \<lparr>browsers = [], ports_in_use = [], ephemeral_port = 49152,
        events = [Request ''/?code=abc123'']\<rparr>
       8080 (Some ''https://login.example.com/authorize'') None None
     = (Some (Inl WebbrowserError), [])"
  by (simp add: browse_def webbrowser_get_def obtain_auth_code_def truthy_def)

subsection \<open>C9: blank values and the loop condition\<close>

text \<open>
  Claim C9. The decoder never reports a key with an empty list or with a blank value;
  the request \<open>/?code=\<close> has no \<open>code\<close> for the handler and gets the default answer; and
  whenever \<open>do_GET\<close> changes \<open>auth_code\<close>, the new value is a string that is not empty,
  hence true for the loop condition \<open>while not self.auth_code\<close>.
\<close>

theorem blank_values_dropped:
  "(parse_qs q k = Some vs \<longrightarrow> vs \<noteq> [] \<and> [] \<notin> set vs)
   \<and> urlparse_query ''/?code='' = Inr ''code=''
   \<and> parse_qs ''code='' ''code'' = None
   \<and> do_GET srv ''/?code=''
       = Inr (srv, \<lparr>status = 200, content_type = ''text/plain'',
                    body = ''This web service serves your redirect_uri''\<rparr>)
   \<and> (do_GET srv path = Inr (srv', resp) \<longrightarrow> auth_code srv' \<noteq> auth_code srv \<longrightarrow>
        (\<exists>c. c \<noteq> [] \<and> auth_code srv' = Some c) \<and> truthy (auth_code srv'))"
proof -
  have target: "urlparse_query ''/?code='' = Inr ''code=''"
    by (simp add: eval_defs)
  have blank: "parse_qs ''code='' ''code'' = None"
    by (simp add: parse_qs_def parse_qsl_def)
  have others: "parse_qs ''code='' ''text'' = None"
    by (simp add: parse_qs_def parse_qsl_def)
  have dflt: "do_GET srv ''/?code=''
       = Inr (srv, \<lparr>status = 200, content_type = ''text/plain'',
                    body = ''This web service serves your redirect_uri''\<rparr>)"
    unfolding do_GET_def target Let_def
    by (simp add: blank others send_full_response_def)
  have set: "(\<exists>c. c \<noteq> [] \<and> auth_code srv' = Some c) \<and> truthy (auth_code srv')"
    if "do_GET srv path = Inr (srv', resp)" and "auth_code srv' \<noteq> auth_code srv"
    using do_GET_cases[OF that(1)] that(2) by (auto simp: truthy_def)
  show ?thesis
    using parse_qs_values[of q k vs] target blank dflt set by blast
qed

theorem blank_values_dropped_witness:
  "parse_qs ''code=&state=s&state=t'' ''state'' = Some [''s'', ''t'']
   \<and> parse_qs ''code=&state=s&state=t'' ''code'' = None
   \<and> do_GET \<lparr>server_address = (''0.0.0.0'', 8080), state = None, auth_code = None,
             timeout = 300, socket_closed = False, port_releases = 0, responses = []\<rparr>
         ''/?code=&code=abc''
       = Inr (\<lparr>server_address = (''0.0.0.0'', 8080), state = None,
               auth_code = Some ''abc'', timeout = 300, socket_closed = False,
               port_releases = 0, responses = []\<rparr>,
              \<lparr>status = 200, content_type = ''text/plain'',
               body = ''Authentication complete. You can close this window''\<rparr>)
   \<and> truthy (Some ''abc'')
   \<and> do_GET \<lparr>server_address = (''0.0.0.0'', 8080), state = None, auth_code = None,
             timeout = 300, socket_closed = False, port_releases = 0, responses = []\<rparr>
         ''/?code=''
       = Inr (\<lparr>server_address = (''0.0.0.0'', 8080), state = None, auth_code = None,
               timeout = 300, socket_closed = False, port_releases = 0,
               responses = []\<rparr>,
              \<lparr>status = 200, content_type = ''text/plain'',
               body = ''This web service serves your redirect_uri''\<rparr>)"
proof -
  let ?S = "\<lparr>server_address = (''0.0.0.0'', 8080), state = None, auth_code = None,
             timeout = 300, socket_closed = False, port_releases = 0, responses = []\<rparr>"
  let ?S' = "\<lparr>server_address = (''0.0.0.0'', 8080), state = None,
               auth_code = Some ''abc'', timeout = 300, socket_closed = False,
               port_releases = 0, responses = []\<rparr>"
  let ?R = "\<lparr>status = 200, content_type = ''text/plain'',
               body = ''Authentication complete. You can close this window''\<rparr>"
  have h1: "parse_qs ''code=&state=s&state=t'' ''state'' = Some [''s'', ''t'']"
    by (simp add: eval_defs)
  have h2: "parse_qs ''code=&state=s&state=t'' ''code'' = None"
    by (simp add: eval_defs)
  have h3: "do_GET ?S ''/?code=&code=abc'' = Inr (?S', ?R)"
    by (simp add: eval_defs)
  have h4: "auth_code ?S' \<noteq> auth_code ?S" by simp
  from blank_values_dropped[of "''code=&state=s&state=t''" "''state''" "[''s'', ''t'']"
        ?S "''/?code=&code=abc''" ?S' ?R] h1 h2 h3 h4
  show ?thesis by simp
qed

subsection \<open>C10: the browser is opened before the port is bound\<close>

text \<open>
  Claim C10. \<open>obtain_auth_code\<close> runs \<open>browse\<close> on its target (\<open>auth_uri\<close> or, when
  \<open>text\<close> is given, the landing page) before it constructs the server. When \<open>browse\<close>
  raises, the call raises the same exception and no socket is bound. When \<open>browse\<close>
  returns, its last effect is the opening of the browser at the target; if the
  construction of the server then fails, the call raises that exception with the
  opening of the browser as its last effect, and if it succeeds, the binding of the
  socket is the next effect. With a default browser and a target without a null
  character, \<open>browse\<close> does return.
\<close>

theorem browser_opened_before_bind:
  assumes target: "target = (if truthy text then Some (page_of port auth_uri text)
                             else auth_uri)"
    and logged: "logged = (if truthy text then [LogWarning (exit_hint_of port)] else [])"
  shows "(browse (browsers env) target = (Some e, effects) \<longrightarrow>
            obtain_auth_code env port auth_uri text request_state
              = (Some (Inl e), logged @ effects)
            \<and> (\<forall>a. SocketBound a \<notin> set (logged @ effects)))
         \<and> (browse (browsers env) target = (None, effects) \<longrightarrow>
            (\<exists>c uri. target = Some uri
               \<and> effects = [LogInfo (''Please open a browser on THIS device to visit: ''
                                       @ uri),
                             BrowserOpen c uri])
            \<and> (AuthcodeRedirectServer_init (ports_in_use env) (ephemeral_port env) port
                  request_state = Inl e \<longrightarrow>
                obtain_auth_code env port auth_uri text request_state
                  = (Some (Inl e), logged @ effects))
            \<and> (AuthcodeRedirectServer_init (ports_in_use env) (ephemeral_port env) port
                  request_state = Inr server \<longrightarrow>
                snd (obtain_auth_code env port auth_uri text request_state)
                  = logged @ effects @ [SocketBound (server_address server)]))
         \<and> (map_of (browsers env) None \<noteq> None \<longrightarrow>
            target = Some uri' \<longrightarrow> CHR 0x00 \<notin> set uri' \<longrightarrow>
            (\<exists>opened. browse (browsers env) target = (None, opened)))"
proof -
  have run: "obtain_auth_code env port auth_uri text request_state =
      (case browse (browsers env) target of
         (Some e, effects) \<Rightarrow> (Some (Inl e), logged @ effects)
       | (None, effects) \<Rightarrow>
           (case AuthcodeRedirectServer_init (ports_in_use env) (ephemeral_port env)
                   port request_state of
              Inl e \<Rightarrow> (Some (Inl e), logged @ effects)
            | Inr server \<Rightarrow>
                (case get_auth_code server (events env) of
                   None \<Rightarrow> None
                 | Some (result, _, _) \<Rightarrow> Some result,
                 logged @ effects @ [SocketBound (server_address server)])))"
    by (cases "truthy text")
       (simp_all add: obtain_auth_code_def target logged
                 cong: sum.case_cong option.case_cong prod.case_cong)
  have unbound: "\<forall>a. SocketBound a \<notin> set logged"
    by (simp add: logged)
  have raised: "obtain_auth_code env port auth_uri text request_state
              = (Some (Inl e), logged @ effects)
            \<and> (\<forall>a. SocketBound a \<notin> set (logged @ effects))"
    if "browse (browsers env) target = (Some e, effects)"
    using that run unbound browse_raises[OF that] by simp
  have returned: "(\<exists>c uri. target = Some uri
               \<and> effects = [LogInfo (''Please open a browser on THIS device to visit: ''
                                       @ uri),
                             BrowserOpen c uri])
            \<and> (AuthcodeRedirectServer_init (ports_in_use env) (ephemeral_port env) port
                  request_state = Inl e \<longrightarrow>
                obtain_auth_code env port auth_uri text request_state
                  = (Some (Inl e), logged @ effects))
            \<and> (AuthcodeRedirectServer_init (ports_in_use env) (ephemeral_port env) port
                  request_state = Inr server \<longrightarrow>
                snd (obtain_auth_code env port auth_uri text request_state)
                  = logged @ effects @ [SocketBound (server_address server)])"
    if "browse (browsers env) target = (None, effects)"
    using that run browse_returns[OF that] by simp
  have total: "\<exists>opened. browse (browsers env) target = (None, opened)"
    if "map_of (browsers env) None \<noteq> None" and "target = Some uri'"
      and "CHR 0x00 \<notin> set uri'"
    using that browse_total[of "browsers env" uri'] by simp
  show ?thesis
    using raised returned total by blast
qed

theorem browser_opened_before_bind_witness:
  "browse [(None, ''xdg-open''), (Some ''firefox'', ''firefox'')]
     (Some ''http://localhost:8080?text=Sign+in&link=https%3A%2F%2Flogin.example.com%2Fauthorize&exit_hint=Visit+http%3A%2F%2Flocalhost%3A8080%3Fauth_code%3Dexit+to+abort'')
   = (None,
      [LogInfo (''Please open a browser on THIS device to visit: ''
                  @ ''http://localhost:8080?text=Sign+in&link=https%3A%2F%2Flogin.example.com%2Fauthorize&exit_hint=Visit+http%3A%2F%2Flocalhost%3A8080%3Fauth_code%3Dexit+to+abort''),
       BrowserOpen ''firefox''
         ''http://localhost:8080?text=Sign+in&link=https%3A%2F%2Flogin.example.com%2Fauthorize&exit_hint=Visit+http%3A%2F%2Flocalhost%3A8080%3Fauth_code%3Dexit+to+abort''])
   \<and> AuthcodeRedirectServer_init [8080] 49152 8080 (Some ''xyz'') = Inl OSError
   \<and> obtain_auth_code
       \<lparr>browsers = [(None, ''xdg-open''), (Some ''firefox'', ''firefox'')],
        ports_in_use = [8080], ephemeral_port = 49152, events = []\<rparr>
       8080 (Some ''https://login.example.com/authorize'') (Some ''Sign in'') (Some ''xyz'')
     = (Some (Inl OSError),
        [LogWarning ''Visit http://localhost:8080?auth_code=exit to abort'',
         LogInfo (''Please open a browser on THIS device to visit: ''
                  @ ''http://localhost:8080?text=Sign+in&link=https%3A%2F%2Flogin.example.com%2Fauthorize&exit_hint=Visit+http%3A%2F%2Flocalhost%3A8080%3Fauth_code%3Dexit+to+abort''),
         BrowserOpen ''firefox''
           ''http://localhost:8080?text=Sign+in&link=https%3A%2F%2Flogin.example.com%2Fauthorize&exit_hint=Visit+http%3A%2F%2Flocalhost%3A8080%3Fauth_code%3Dexit+to+abort''])"
proof -
  let ?env = "\<lparr>browsers = [(None, ''xdg-open''), (Some ''firefox'', ''firefox'')],
        ports_in_use = [8080], ephemeral_port = 49152, events = []\<rparr>"
  let ?page = "''http://localhost:8080?text=Sign+in&link=https%3A%2F%2Flogin.example.com%2Fauthorize&exit_hint=Visit+http%3A%2F%2Flocalhost%3A8080%3Fauth_code%3Dexit+to+abort''"
  let ?effects = "[LogInfo (''Please open a browser on THIS device to visit: '' @ ?page),
                   BrowserOpen ''firefox'' ?page]"
  let ?logged = "[LogWarning ''Visit http://localhost:8080?auth_code=exit to abort'']"
  have page: "page_of 8080 (Some ''https://login.example.com/authorize'') (Some ''Sign in'')
                = ?page"
    by (simp add: page_of_def exit_hint_of_def str_int_def str_nat.simps quote_plus_def
                  quote_char_def is_alpha_def is_digit_def pystr_def)
  have t: "Some ?page = (if truthy (Some ''Sign in'')
                         then Some (page_of 8080 (Some ''https://login.example.com/authorize'')
                                      (Some ''Sign in''))
                         else Some ''https://login.example.com/authorize'')"
    by (simp add: page truthy_def)
  have l: "?logged = (if truthy (Some ''Sign in'') then [LogWarning (exit_hint_of 8080)]
                      else [])"
    by (simp add: truthy_def exit_hint_of_def str_int_def str_nat.simps)
  have b: "browse (browsers ?env) (Some ?page) = (None, ?effects)"
    by (simp add: browse_def webbrowser_get_def controller_open_def pystr_def)
  have i: "AuthcodeRedirectServer_init (ports_in_use ?env) (ephemeral_port ?env) 8080
             (Some ''xyz'') = Inl OSError"
    by (simp add: AuthcodeRedirectServer_init_def)
  from browser_opened_before_bind[OF t l, where env = ?env and effects = ?effects
      and e = OSError and request_state = "Some ''xyz''"] b i
  have "obtain_auth_code ?env 8080 (Some ''https://login.example.com/authorize'')
          (Some ''Sign in'') (Some ''xyz'') = (Some (Inl OSError), ?logged @ ?effects)"
    by blast
  with b i show ?thesis by simp
qed

end
